theory Spec2Isabelle
  imports Main
begin

section \<open>JavaScript values the error pipeline handles\<close>

text \<open>
  The visible fields of a plain \<^verbatim>\<open>Error\<close> object: \<^verbatim>\<open>name\<close> and \<^verbatim>\<open>message\<close> are
  strings, \<^verbatim>\<open>stack\<close> is optional (\<^verbatim>\<open>stack?: string\<close>), so \<open>None\<close> stands for
  \<^verbatim>\<open>undefined\<close>.
\<close>

record js_error =
  name :: string
  message :: string
  stack :: "string option"

text \<open>
  The values that are stored in a response body or in \<^verbatim>\<open>keyValue\<close>. Numbers are
  modelled as integers (status codes and driver codes are integral).
\<close>

datatype jvalue =
    JUndefined
  | JBool bool
  | JNum int
  | JStr string
  | JError js_error

text \<open>
  The prototype an error object carries after its constructors have run
  (\<^verbatim>\<open>Object.setPrototypeOf\<close>): \<open>Error_proto\<close> is every error that was not built by the
  hierarchy of \<^verbatim>\<open>error.util\<close>.
\<close>

datatype proto =
    Error_proto
  | AppError_proto
  | BadRequestError_proto
  | NotFoundError_proto
  | UnauthorizedError_proto
  | ForbiddenError_proto
  | ConflictError_proto
  | RateLimitError_proto
  | ServiceUnavailableError_proto
  | QueueTimeoutError_proto

text \<open>
  One entry of \<^verbatim>\<open>MongooseValidationError.errors\<close>: the handler reads it with
  \<^verbatim>\<open>item?.message\<close>, so the entry may be null and its message may be missing.
\<close>

datatype sub_error = Null_item | Item "string option"

text \<open>
  What the error handler can be handed: an \<^verbatim>\<open>Error\<close> with every property the handler
  probes, each absent (\<open>None\<close>) or present. Objects are association lists in the order
  \<^verbatim>\<open>Object.keys\<close> and \<^verbatim>\<open>Object.values\<close> enumerate them.
\<close>

record failure = js_error +
  prototype :: proto
  statusCode :: "int option"
  isOperational :: "bool option"
  originalError :: "js_error option"
  errors :: "(string \<times> sub_error) list option"
  path :: "string option"
  code :: "int option"
  keyValue :: "(string \<times> jvalue) list option"

section \<open>The error hierarchy (error.util)\<close>

text \<open>
  \<^verbatim>\<open>new Error(message)\<close>: the name is \<^verbatim>\<open>"Error"\<close>, and none of the properties the
  handler probes is there. The second argument is the trace the engine records, which
  depends on the call site.
\<close>

definition Error :: "string \<Rightarrow> string option \<Rightarrow> failure" where
  "Error msg tr =
     \<lparr> name = ''Error'', message = msg, stack = tr,
       prototype = Error_proto,
       statusCode = None, isOperational = None, originalError = None,
       errors = None, path = None, code = None, keyValue = None \<rparr>"

text \<open>
  \<^verbatim>\<open>new AppError(message, statusCode = 500, originalError = null)\<close>. An optional
  parameter is an \<open>option\<close>: \<open>None\<close> is the argument left out. The first argument
  of every constructor of the hierarchy is the trace \<^verbatim>\<open>Error.captureStackTrace\<close>
  records. The class sets no \<^verbatim>\<open>name\<close>, so it stays \<^verbatim>\<open>"Error"\<close>.
\<close>

definition AppError :: "string \<Rightarrow> string \<Rightarrow> int option \<Rightarrow> js_error option \<Rightarrow> failure" where
  "AppError tr msg sc orig =
     (Error msg (Some tr))
       \<lparr> prototype := AppError_proto,
         statusCode := Some (case sc of None \<Rightarrow> 500 | Some n \<Rightarrow> n),
         isOperational := Some True,
         originalError := orig \<rparr>"

text \<open>A subclass calls \<^verbatim>\<open>super(message, status, err)\<close> and then sets its own prototype.\<close>

definition BadRequestError :: "string \<Rightarrow> string option \<Rightarrow> js_error option \<Rightarrow> failure" where
  "BadRequestError tr msg err =
     (AppError tr (case msg of None \<Rightarrow> ''Validation failed'' | Some m \<Rightarrow> m) (Some 400) err)
       \<lparr> prototype := BadRequestError_proto \<rparr>"

definition NotFoundError :: "string \<Rightarrow> string option \<Rightarrow> js_error option \<Rightarrow> failure" where
  "NotFoundError tr msg err =
     (AppError tr (case msg of None \<Rightarrow> ''Resource not found'' | Some m \<Rightarrow> m) (Some 404) err)
       \<lparr> prototype := NotFoundError_proto \<rparr>"

definition UnauthorizedError :: "string \<Rightarrow> string option \<Rightarrow> js_error option \<Rightarrow> failure" where
  "UnauthorizedError tr msg err =
     (AppError tr (case msg of None \<Rightarrow> ''Unauthorized access'' | Some m \<Rightarrow> m) (Some 401) err)
       \<lparr> prototype := UnauthorizedError_proto \<rparr>"

definition ForbiddenError :: "string \<Rightarrow> string option \<Rightarrow> js_error option \<Rightarrow> failure" where
  "ForbiddenError tr msg err =
     (AppError tr (case msg of None \<Rightarrow> ''Forbidden access'' | Some m \<Rightarrow> m) (Some 403) err)
       \<lparr> prototype := ForbiddenError_proto \<rparr>"

definition ConflictError :: "string \<Rightarrow> string option \<Rightarrow> js_error option \<Rightarrow> failure" where
  "ConflictError tr msg err =
     (AppError tr (case msg of None \<Rightarrow> ''Resource conflict'' | Some m \<Rightarrow> m) (Some 409) err)
       \<lparr> prototype := ConflictError_proto \<rparr>"

definition RateLimitError :: "string \<Rightarrow> string option \<Rightarrow> failure" where
  "RateLimitError tr msg =
     (AppError tr (case msg of None \<Rightarrow> ''Rate limit exceeded'' | Some m \<Rightarrow> m) (Some 429) None)
       \<lparr> prototype := RateLimitError_proto \<rparr>"

definition ServiceUnavailableError :: "string \<Rightarrow> string option \<Rightarrow> failure" where
  "ServiceUnavailableError tr msg =
     (AppError tr (case msg of None \<Rightarrow> ''Service temporarily unavailable'' | Some m \<Rightarrow> m)
        (Some 503) None)
       \<lparr> prototype := ServiceUnavailableError_proto \<rparr>"

definition QueueTimeoutError :: "string \<Rightarrow> string option \<Rightarrow> failure" where
  "QueueTimeoutError tr msg =
     (AppError tr (case msg of None \<Rightarrow> ''504 Gateway Timeout'' | Some m \<Rightarrow> m) (Some 504) None)
       \<lparr> prototype := QueueTimeoutError_proto \<rparr>"

text \<open>
  \<^verbatim>\<open>err instanceof AppError\<close>: the prototype chain of every class of the hierarchy
  passes through \<^verbatim>\<open>AppError.prototype\<close>.
\<close>

definition instanceof_AppError :: "failure \<Rightarrow> bool" where
  "instanceof_AppError e = (case prototype e of Error_proto \<Rightarrow> False | _ \<Rightarrow> True)"

section \<open>The error middleware (error.middleware)\<close>

text \<open>
  What the handler reads besides the error and the request: \<^verbatim>\<open>process.env.NODE_ENV\<close>
  (absent when unset) and the clock, as the string \<^verbatim>\<open>new Date().toISOString()\<close> returns.
\<close>

record runtime =
  NODE_ENV :: "string option"
  now :: string

record request =
  url :: string
  originalUrl :: string

text \<open>
  A response that was sent: the status given to \<^verbatim>\<open>res.status\<close> and the object literal
  given to \<^verbatim>\<open>res.json\<close>, as the list of its properties in the order the literal
  writes them.
\<close>

record response =
  status :: int
  body :: "(string \<times> jvalue) list"

datatype js_exception = TypeError | RangeError

text \<open>
  What a handler does with the request: it calls \<^verbatim>\<open>next(err)\<close>, it sends a response,
  or it throws (the promise of the \<^verbatim>\<open>async\<close> handler rejects).
\<close>

datatype effect = Next failure | Send response | Throw js_exception

record handled =
  console :: "string list"
  result :: effect

text \<open>
  \<^verbatim>\<open>res.status(n).json(obj)\<close> as the handler calls it. Express 5 accepts a status from
  100 to 999 and throws a RangeError for any other integer, before anything is sent;
  the handler does not catch it. (Numbers are integers here, so the TypeError of
  \<^verbatim>\<open>res.status\<close> for a status that is not an integer has no input in the model.)
\<close>

definition res_status_json :: "int \<Rightarrow> (string \<times> jvalue) list \<Rightarrow> effect" where
  "res_status_json n obj =
     (if 100 \<le> n \<and> n \<le> 999 then Send \<lparr> status = n, body = obj \<rparr>
      else Throw RangeError)"

record DefaultError =
  d_statusCode :: int
  d_msg :: string
  d_originalError :: jvalue

text \<open>A template literal writes an undefined value as \<^verbatim>\<open>undefined\<close>.\<close>

definition template :: "string option \<Rightarrow> string" where
  "template v = (case v of None \<Rightarrow> ''undefined'' | Some s \<Rightarrow> s)"

text \<open>
  \<^verbatim>\<open>Array.prototype.join\<close>: the separator stands between the elements; an undefined
  element is written as the empty string. An array in a template literal is joined
  with a comma.
\<close>

fun join :: "string \<Rightarrow> string list \<Rightarrow> string" where
  "join sep [] = []"
| "join sep [x] = x"
| "join sep (x # y # ys) = x @ sep @ join sep (y # ys)"

definition array_join :: "string option list \<Rightarrow> string \<Rightarrow> string" where
  "array_join xs sep = join sep (map (\<lambda>x. case x of None \<Rightarrow> [] | Some s \<Rightarrow> s) xs)"

text \<open>\<^verbatim>\<open>item?.message\<close>\<close>

definition item_message :: "sub_error \<Rightarrow> string option" where
  "item_message item = (case item of Null_item \<Rightarrow> None | Item m \<Rightarrow> m)"

text \<open>\<^verbatim>\<open>s.replace(/^\/api/, "")\<close>: the four characters are removed where the string starts with them.\<close>

definition replace_api :: "string \<Rightarrow> string" where
  "replace_api s = (if take 4 s = ''/api'' then drop 4 s else s)"

text \<open>\<^verbatim>\<open>next(new NotFoundError(`Route not found : ${_req.url}`))\<close>\<close>

definition notFound :: "string \<Rightarrow> request \<Rightarrow> effect" where
  "notFound tr req = Next (NotFoundError tr (Some (''Route not found : '' @ url req)) None)"

text \<open>
  The handler, statement by statement. \<^verbatim>\<open>a || b\<close> takes \<open>b\<close> when \<open>a\<close> is undefined,
  null, zero or the empty string. \<^verbatim>\<open>Object.values(validationErr.errors)\<close> throws a
  TypeError when \<^verbatim>\<open>errors\<close> is undefined, which ends the handler (\<open>Inl\<close>); the
  statements after it run on the \<^verbatim>\<open>defaultError\<close> it leaves (\<open>Inr\<close>). The spread
  \<^verbatim>\<open>...(cond && { stack: err.stack })\<close> adds the property when the condition holds,
  also when \<^verbatim>\<open>err.stack\<close> is undefined.
\<close>

definition errorHandlerMiddleware :: "runtime \<Rightarrow> failure \<Rightarrow> request \<Rightarrow> handled" where
  "errorHandlerMiddleware rt err req =
    (let out = [''(StackTrace): '' @ template (stack err)];
         defaultError =
           \<lparr> d_statusCode = (case statusCode err of None \<Rightarrow> 500
                              | Some n \<Rightarrow> if n = 0 then 500 else n),
             d_msg = (if message err = [] then ''Something went wrong, try again later''
                      else message err),
             d_originalError = (case originalError err of None \<Rightarrow> JStr ''Error''
                                | Some c \<Rightarrow> JError c) \<rparr>
     in
     if instanceof_AppError err then
       \<lparr> console = out,
         result = res_status_json (d_statusCode defaultError)
           [(''success'', JBool False),
            (''error'', JBool True),
            (''message'', JStr (d_msg defaultError)),
            (''originalError'', d_originalError defaultError),
            (''statusCode'', JNum (d_statusCode defaultError)),
            (''timestamp'', JStr (now rt)),
            (''path'', JStr (replace_api (originalUrl req)))] \<rparr>
     else
       (case (if name err = ''ValidationError'' then
                (case errors err of
                   None \<Rightarrow> Inl TypeError
                 | Some es \<Rightarrow>
                     Inr (defaultError
                       \<lparr> d_statusCode := 500,
                         d_msg := array_join (map item_message (map snd es)) '','' \<rparr>))
              else Inr defaultError) of
          Inl x \<Rightarrow> \<lparr> console = out, result = Throw x \<rparr>
        | Inr d1 \<Rightarrow>
            (let d2 =
                   (if name err = ''CastError'' then
                      d1 \<lparr> d_statusCode := 400,
                           d_msg := ''Resource not found. Invalid: '' @ template (path err) \<rparr>
                    else d1);
                 d3 =
                   (if (case code err of None \<Rightarrow> False | Some c \<Rightarrow> c \<noteq> 0 \<and> c = 11000) then
                      d2 \<lparr> d_statusCode := 400,
                           d_msg :=
                             join '','' (map fst (case keyValue err of None \<Rightarrow> [] | Some kv \<Rightarrow> kv))
                             @ '' field has to be unique'' \<rparr>
                    else d2)
             in
             \<lparr> console = out,
               result = res_status_json (d_statusCode d3)
                 ([(''success'', JBool False),
                   (''message'', JStr (d_msg d3)),
                   (''statusCode'', JNum (d_statusCode d3)),
                   (''timestamp'', JStr (now rt)),
                   (''path'', JStr (url req))]
                  @ (if NODE_ENV rt = Some ''development''
                     then [(''stack'', case stack err of None \<Rightarrow> JUndefined | Some s \<Rightarrow> JStr s)]
                     else [])) \<rparr>)))"

text \<open>
  \<^verbatim>\<open>app.use(ErrorMiddleware.notFound); app.use(ErrorMiddleware.errorHandlerMiddleware)\<close>:
  a request that no route answered reaches \<open>notFound\<close>, and the error it passes to
  \<^verbatim>\<open>next\<close> reaches the error handler.
\<close>

definition initializeErrorHandling :: "runtime \<Rightarrow> string \<Rightarrow> request \<Rightarrow> handled" where
  "initializeErrorHandling rt tr req =
     (case notFound tr req of
        Next e \<Rightarrow> errorHandlerMiddleware rt e req
      | Send r \<Rightarrow> \<lparr> console = [], result = Send r \<rparr>
      | Throw x \<Rightarrow> \<lparr> console = [], result = Throw x \<rparr>)"

section \<open>Facts about the helpers\<close>

lemmas ctor_defs =
  Error_def AppError_def BadRequestError_def NotFoundError_def UnauthorizedError_def
  ForbiddenError_def ConflictError_def RateLimitError_def ServiceUnavailableError_def
  QueueTimeoutError_def

lemmas mw_defs = errorHandlerMiddleware_def instanceof_AppError_def res_status_json_def

lemma instanceof_AppError_hierarchy:
  "instanceof_AppError (AppError tr m sc orig)"
  "instanceof_AppError (BadRequestError tr mo orig)"
  "instanceof_AppError (NotFoundError tr mo orig)"
  "instanceof_AppError (UnauthorizedError tr mo orig)"
  "instanceof_AppError (ForbiddenError tr mo orig)"
  "instanceof_AppError (ConflictError tr mo orig)"
  "instanceof_AppError (RateLimitError tr mo)"
  "instanceof_AppError (ServiceUnavailableError tr mo)"
  "instanceof_AppError (QueueTimeoutError tr mo)"
  "\<not> instanceof_AppError (Error m st)"
  by (simp_all add: ctor_defs instanceof_AppError_def)

lemma replace_api_strips: "replace_api (''/api'' @ s) = s"
  by (simp add: replace_api_def)

lemma replace_api_keeps: "take 4 s \<noteq> ''/api'' \<Longrightarrow> replace_api s = s"
  by (simp add: replace_api_def)

lemma replace_api_segment: "replace_api (''/api/'' @ s) = ''/'' @ s"
  by (simp add: replace_api_def)

lemma replace_api_not_a_segment: "replace_api ''/apiary/7'' = ''ary/7''"
  by (simp add: replace_api_def)

lemma array_join_defined: "array_join (map Some xs) sep = join sep xs"
  by (simp add: array_join_def comp_def)

lemma handler_logs_stack:
  "console (errorHandlerMiddleware rt err req) = [''(StackTrace): '' @ template (stack err)]"
  by (simp add: errorHandlerMiddleware_def Let_def split: sum.splits)

lemma handler_throws_TypeError:
  assumes "\<not> instanceof_AppError err"
    and "name err = ''ValidationError''"
    and "errors err = None"
  shows "result (errorHandlerMiddleware rt err req) = Throw TypeError"
  using assms by (simp add: errorHandlerMiddleware_def)

lemma handler_throws_RangeError:
  assumes "instanceof_AppError err"
    and "statusCode err = Some n"
    and "n \<noteq> 0"
    and "n < 100 \<or> 999 < n"
  shows "result (errorHandlerMiddleware rt err req) = Throw RangeError"
  using assms by (auto simp add: errorHandlerMiddleware_def res_status_json_def)

lemma unclassified_result:
  assumes "\<not> instanceof_AppError err"
  shows "result (errorHandlerMiddleware rt err req) = Throw TypeError \<or>
    (\<exists>sc m. result (errorHandlerMiddleware rt err req) =
       res_status_json sc
         ([(''success'', JBool False),
           (''message'', JStr m),
           (''statusCode'', JNum sc),
           (''timestamp'', JStr (now rt)),
           (''path'', JStr (url req))]
          @ (if NODE_ENV rt = Some ''development''
             then [(''stack'', case stack err of None \<Rightarrow> JUndefined | Some s \<Rightarrow> JStr s)]
             else [])))"
  using assms
  by (cases "errors err") (auto simp add: errorHandlerMiddleware_def Let_def)

lemma res_status_json_Send:
  assumes "res_status_json n obj = Send r"
  shows "status r = n \<and> body r = obj"
proof (cases "100 \<le> n \<and> n \<le> 999")
  case True
  with assms have "Send \<lparr> status = n, body = obj \<rparr> = Send r"
    by (simp add: res_status_json_def)
  then have "r = \<lparr> status = n, body = obj \<rparr>" by simp
  then show ?thesis by simp
next
  case False
  with assms show ?thesis by (simp add: res_status_json_def)
qed

section \<open>The hierarchy's contract\<close>

text \<open>
  C2. Each of the nine kinds, built with a custom message and nothing else, carries the
  status fixed for its kind (500, 400, 404, 401, 403, 409, 429, 503, 504), whatever the
  message is.
\<close>

theorem status_fixed_per_kind:
  "statusCode (AppError tr m None None) = Some 500 \<and>
   statusCode (BadRequestError tr (Some m) None) = Some 400 \<and>
   statusCode (NotFoundError tr (Some m) None) = Some 404 \<and>
   statusCode (UnauthorizedError tr (Some m) None) = Some 401 \<and>
   statusCode (ForbiddenError tr (Some m) None) = Some 403 \<and>
   statusCode (ConflictError tr (Some m) None) = Some 409 \<and>
   statusCode (RateLimitError tr (Some m)) = Some 429 \<and>
   statusCode (ServiceUnavailableError tr (Some m)) = Some 503 \<and>
   statusCode (QueueTimeoutError tr (Some m)) = Some 504"
  by (simp add: ctor_defs)

text \<open>
  C3, as the code has it. Built without a message, each of the eight subclasses carries
  its default message; the default of \<open>QueueTimeoutError\<close> is \<^verbatim>\<open>504 Gateway Timeout\<close>.
  \<open>AppError\<close> itself has no default: its message is a required parameter and is kept
  as given, and it is the handler that writes
  \<^verbatim>\<open>Something went wrong, try again later\<close> for an \<open>AppError\<close> whose message is empty.
\<close>

theorem default_messages:
  "message (BadRequestError tr None err) = ''Validation failed'' \<and>
   message (NotFoundError tr None err) = ''Resource not found'' \<and>
   message (UnauthorizedError tr None err) = ''Unauthorized access'' \<and>
   message (ForbiddenError tr None err) = ''Forbidden access'' \<and>
   message (ConflictError tr None err) = ''Resource conflict'' \<and>
   message (RateLimitError tr None) = ''Rate limit exceeded'' \<and>
   message (ServiceUnavailableError tr None) = ''Service temporarily unavailable'' \<and>
   message (QueueTimeoutError tr None) = ''504 Gateway Timeout'' \<and>
   message (AppError tr m sc err) = m \<and>
   result (errorHandlerMiddleware rt (AppError tr [] None None) req) = Send
     \<lparr> status = 500,
       body =
         [(''success'', JBool False),
          (''error'', JBool True),
          (''message'', JStr ''Something went wrong, try again later''),
          (''originalError'', JStr ''Error''),
          (''statusCode'', JNum 500),
          (''timestamp'', JStr (now rt)),
          (''path'', JStr (replace_api (originalUrl req)))] \<rparr>"
  by (simp add: ctor_defs mw_defs)

text \<open>
  C3 as the specification's table states it fails for \<open>QueueTimeoutError\<close>: the default
  message is not \<^verbatim>\<open>Gateway Timeout\<close>.
\<close>

theorem queue_timeout_default_counterexample:
  "message (QueueTimeoutError ''at worker'' None) \<noteq> ''Gateway Timeout''"
  by (simp add: ctor_defs)

text \<open>
  C9. Every constructor of the hierarchy, with any arguments, sets \<open>isOperational\<close> to
  true, and so does the failure \<open>notFound\<close> raises. The constructor of \<open>AppError\<close> is
  the only place of the source that writes the field: the handlers read the failure and
  never return a changed one.
\<close>

theorem isOperational_always_true:
  "isOperational (AppError tr m sc err) = Some True \<and>
   isOperational (BadRequestError tr mo err) = Some True \<and>
   isOperational (NotFoundError tr mo err) = Some True \<and>
   isOperational (UnauthorizedError tr mo err) = Some True \<and>
   isOperational (ForbiddenError tr mo err) = Some True \<and>
   isOperational (ConflictError tr mo err) = Some True \<and>
   isOperational (RateLimitError tr mo) = Some True \<and>
   isOperational (ServiceUnavailableError tr mo) = Some True \<and>
   isOperational (QueueTimeoutError tr mo) = Some True \<and>
   (case notFound tr req of
      Next e \<Rightarrow> isOperational e = Some True
    | Send r \<Rightarrow> False
    | Throw x \<Rightarrow> False)"
  by (simp add: ctor_defs notFound_def)

section \<open>Rendering a failure of the hierarchy\<close>




text \<open>
  C4. \<open>notFound\<close> sends nothing: it hands \<^verbatim>\<open>next\<close> a \<open>NotFoundError\<close> of status 404
  whose message ends with the request's url. The error handler then answers 404 with
  that message, for every request and in every mode.
\<close>

theorem unmatched_route_404:
  "(case notFound tr req of
      Next e \<Rightarrow>
        prototype e = NotFoundError_proto \<and> statusCode e = Some 404 \<and>
        message e = ''Route not found : '' @ url req
    | Send r \<Rightarrow> False
    | Throw x \<Rightarrow> False) \<and>
   result (initializeErrorHandling rt tr req) = Send
     \<lparr> status = 404,
       body =
         [(''success'', JBool False),
          (''error'', JBool True),
          (''message'', JStr (''Route not found : '' @ url req)),
          (''originalError'', JStr ''Error''),
          (''statusCode'', JNum 404),
          (''timestamp'', JStr (now rt)),
          (''path'', JStr (replace_api (originalUrl req)))] \<rparr>"
  by (simp add: notFound_def initializeErrorHandling_def ctor_defs mw_defs)

section \<open>Rendering any other failure\<close>

text \<open>
  Where the handler reaches the check of the code, a failure outside the hierarchy with
  code 11000 is answered with status 400 and the message
  \<^verbatim>\<open><fields of keyValue, comma-joined> field has to be unique\<close>. The check is reached
  unless the step before it throws.
\<close>

lemma uniqueness_failure_rendered:
  assumes "\<not> instanceof_AppError err"
    and "code err = Some 11000"
    and "keyValue err = Some kv"
    and "\<not> (name err = ''ValidationError'' \<and> errors err = None)"
  shows "result (errorHandlerMiddleware rt err req) = Send
    \<lparr> status = 400,
      body =
        [(''success'', JBool False),
         (''message'', JStr (join '','' (map fst kv) @ '' field has to be unique'')),
         (''statusCode'', JNum 400),
         (''timestamp'', JStr (now rt)),
         (''path'', JStr (url req))]
        @ (if NODE_ENV rt = Some ''development''
           then [(''stack'', case stack err of None \<Rightarrow> JUndefined | Some s \<Rightarrow> JStr s)]
           else []) \<rparr>"
  using assms by (auto simp add: errorHandlerMiddleware_def res_status_json_def Let_def split: option.splits)

text \<open>The scenario of the specification: a duplicate key on the field \<^verbatim>\<open>email\<close>.\<close>

lemma uniqueness_on_email:
  "\<not> instanceof_AppError
       ((Error ''E11000 duplicate key error'' (Some ''MongoServerError: E11000''))
         \<lparr> name := ''MongoServerError'',
           code := Some 11000,
           keyValue := Some [(''email'', JStr ''a@b.c'')] \<rparr>) \<and>
   result (errorHandlerMiddleware
       \<lparr> NODE_ENV = Some ''production'', now = ''2026-11-02T10:00:00.000Z'' \<rparr>
       ((Error ''E11000 duplicate key error'' (Some ''MongoServerError: E11000''))
         \<lparr> name := ''MongoServerError'',
           code := Some 11000,
           keyValue := Some [(''email'', JStr ''a@b.c'')] \<rparr>)
       \<lparr> url = ''/api/users'', originalUrl = ''/api/users'' \<rparr>) = Send
     \<lparr> status = 400,
       body =
         [(''success'', JBool False),
          (''message'', JStr ''email field has to be unique''),
          (''statusCode'', JNum 400),
          (''timestamp'', JStr ''2026-11-02T10:00:00.000Z''),
          (''path'', JStr ''/api/users'')] \<rparr>"
  using uniqueness_failure_rendered
    [where err = "(Error ''E11000 duplicate key error'' (Some ''MongoServerError: E11000''))
         \<lparr> name := ''MongoServerError'',
           code := Some 11000,
           keyValue := Some [(''email'', JStr ''a@b.c'')] \<rparr>"
       and kv = "[(''email'', JStr ''a@b.c'')]"
       and rt = "\<lparr> NODE_ENV = Some ''production'', now = ''2026-11-02T10:00:00.000Z'' \<rparr>"
       and req = "\<lparr> url = ''/api/users'', originalUrl = ''/api/users'' \<rparr>"]
  by (simp add: ctor_defs instanceof_AppError_def)

text \<open>
  C5. A failure with code 11000 and the offending field in \<open>keyValue\<close> is to be
  answered with status 400. The code at a failure that has this shape and is named
  \<^verbatim>\<open>ValidationError\<close> without an \<open>errors\<close> object: \<^verbatim>\<open>Object.values(undefined)\<close>
  throws in the step before, and nothing is sent. The step does not guard the missing
  object, as the uniqueness step does with \<^verbatim>\<open>keyValue || {}\<close>.
\<close>

theorem uniqueness_violation_throws:
  "result (errorHandlerMiddleware
       \<lparr> NODE_ENV = Some ''production'', now = ''2026-11-02T10:00:00.000Z'' \<rparr>
       ((Error ''invalid'' (Some ''ValidationError: invalid''))
         \<lparr> name := ''ValidationError'',
           code := Some 11000,
           keyValue := Some [(''email'', JStr ''a@b.c'')] \<rparr>)
       \<lparr> url = ''/api/users'', originalUrl = ''/api/users'' \<rparr>) = Throw TypeError"
  by (simp add: ctor_defs mw_defs)

text \<open>
  C6, as the code has it. A failure outside the hierarchy named \<^verbatim>\<open>ValidationError\<close>,
  with its \<open>errors\<close>, is answered with status 500 and the comma-joined messages of the
  entries (a missing message is written as the empty string), provided its code is not
  11000.
\<close>

theorem validation_failure_rendered:
  assumes "\<not> instanceof_AppError err"
    and "name err = ''ValidationError''"
    and "errors err = Some es"
    and "code err \<noteq> Some 11000"
  shows "result (errorHandlerMiddleware rt err req) = Send
    \<lparr> status = 500,
      body =
        [(''success'', JBool False),
         (''message'', JStr (array_join (map item_message (map snd es)) '','')),
         (''statusCode'', JNum 500),
         (''timestamp'', JStr (now rt)),
         (''path'', JStr (url req))]
        @ (if NODE_ENV rt = Some ''development''
           then [(''stack'', case stack err of None \<Rightarrow> JUndefined | Some s \<Rightarrow> JStr s)]
           else []) \<rparr>"
  using assms by (auto simp add: errorHandlerMiddleware_def res_status_json_def Let_def split: option.splits)

theorem validation_failure_rendered_witness:
  "\<not> instanceof_AppError
       ((Error ''User validation failed'' (Some ''ValidationError: User validation failed''))
         \<lparr> name := ''ValidationError'',
           errors := Some [(''email'', Item (Some ''Email is required'')), (''age'', Item (Some ''Age must be positive''))] \<rparr>) \<and>
   result (errorHandlerMiddleware
       \<lparr> NODE_ENV = Some ''production'', now = ''2026-11-02T10:00:00.000Z'' \<rparr>
       ((Error ''User validation failed'' (Some ''ValidationError: User validation failed''))
         \<lparr> name := ''ValidationError'',
           errors := Some [(''email'', Item (Some ''Email is required'')), (''age'', Item (Some ''Age must be positive''))] \<rparr>)
       \<lparr> url = ''/api/users'', originalUrl = ''/api/users'' \<rparr>) = Send
     \<lparr> status = 500,
       body =
         [(''success'', JBool False),
          (''message'', JStr ''Email is required,Age must be positive''),
          (''statusCode'', JNum 500),
          (''timestamp'', JStr ''2026-11-02T10:00:00.000Z''),
          (''path'', JStr ''/api/users'')] \<rparr>"
  using validation_failure_rendered
    [where err = "(Error ''User validation failed'' (Some ''ValidationError: User validation failed''))
         \<lparr> name := ''ValidationError'',
           errors := Some [(''email'', Item (Some ''Email is required'')), (''age'', Item (Some ''Age must be positive''))] \<rparr>"
       and es = "[(''email'', Item (Some ''Email is required'')), (''age'', Item (Some ''Age must be positive''))]"
       and rt = "\<lparr> NODE_ENV = Some ''production'', now = ''2026-11-02T10:00:00.000Z'' \<rparr>"
       and req = "\<lparr> url = ''/api/users'', originalUrl = ''/api/users'' \<rparr>"]
  by (simp add: ctor_defs instanceof_AppError_def array_join_def item_message_def)

text \<open>
  C6 as stated (every validation-shaped failure gets 500 and the joined messages) fails
  where the failure also has code 11000: the later check replaces both.
\<close>

theorem validation_overridden_counterexample:
  "result (errorHandlerMiddleware
       \<lparr> NODE_ENV = Some ''production'', now = ''2026-11-02T10:00:00.000Z'' \<rparr>
       ((Error ''User validation failed'' (Some ''ValidationError: User validation failed''))
         \<lparr> name := ''ValidationError'',
           errors := Some [(''email'', Item (Some ''Email is required''))],
           code := Some 11000,
           keyValue := Some [(''email'', JStr ''a@b.c'')] \<rparr>)
       \<lparr> url = ''/api/users'', originalUrl = ''/api/users'' \<rparr>) = Send
     \<lparr> status = 400,
       body =
         [(''success'', JBool False),
          (''message'', JStr ''email field has to be unique''),
          (''statusCode'', JNum 400),
          (''timestamp'', JStr ''2026-11-02T10:00:00.000Z''),
          (''path'', JStr ''/api/users'')] \<rparr>"
  by (simp add: ctor_defs mw_defs array_join_def item_message_def)

text \<open>
  C7, as the code has it. In every response the handler sends for a failure outside the
  hierarchy, the field is named \<^verbatim>\<open>stack\<close>: in development mode it is there and holds
  the failure's own \<^verbatim>\<open>err.stack\<close>, undefined when the failure has none; in every
  other mode it is absent. No response has a field \<^verbatim>\<open>stackTrace\<close>.
\<close>

theorem stack_field_by_mode:
  assumes "\<not> instanceof_AppError err"
    and "result (errorHandlerMiddleware rt err req) = Send r"
  shows "map_of (body r) ''stack'' =
           (if NODE_ENV rt = Some ''development''
            then Some (case stack err of None \<Rightarrow> JUndefined | Some s \<Rightarrow> JStr s)
            else None) \<and>
         map_of (body r) ''stackTrace'' = None"
proof -
  let ?obj = "\<lambda>sc m.
          [(''success'', JBool False),
           (''message'', JStr m),
           (''statusCode'', JNum sc),
           (''timestamp'', JStr (now rt)),
           (''path'', JStr (url req))]
          @ (if NODE_ENV rt = Some ''development''
             then [(''stack'', case stack err of None \<Rightarrow> JUndefined | Some s \<Rightarrow> JStr s)]
             else [])"
  from unclassified_result [OF assms(1), of rt req]
  have "\<exists>sc m. result (errorHandlerMiddleware rt err req) = res_status_json sc (?obj sc m)"
    using assms(2) by simp
  then obtain sc m where "res_status_json sc (?obj sc m) = Send r"
    using assms(2) by auto
  then have "body r = ?obj sc m"
    using res_status_json_Send by blast
  then show ?thesis by simp
qed

text \<open>The same failure in development mode and in production mode.\<close>

theorem stack_field_by_mode_witness:
  "\<not> instanceof_AppError (Error ''disk full'' (Some ''Error: disk full at write'')) \<and>
   result (errorHandlerMiddleware
       \<lparr> NODE_ENV = Some ''development'', now = ''2026-11-02T10:00:00.000Z'' \<rparr>
       (Error ''disk full'' (Some ''Error: disk full at write''))
       \<lparr> url = ''/api/users'', originalUrl = ''/api/users'' \<rparr>) = Send
     \<lparr> status = 500,
       body =
         [(''success'', JBool False),
          (''message'', JStr ''disk full''),
          (''statusCode'', JNum 500),
          (''timestamp'', JStr ''2026-11-02T10:00:00.000Z''),
          (''path'', JStr ''/api/users''),
          (''stack'', JStr ''Error: disk full at write'')] \<rparr> \<and>
   map_of
     [(''success'', JBool False),
      (''message'', JStr ''disk full''),
      (''statusCode'', JNum 500),
      (''timestamp'', JStr ''2026-11-02T10:00:00.000Z''),
      (''path'', JStr ''/api/users''),
      (''stack'', JStr ''Error: disk full at write'')] ''stack'' =
     Some (JStr ''Error: disk full at write'') \<and>
   result (errorHandlerMiddleware
       \<lparr> NODE_ENV = Some ''production'', now = ''2026-11-02T10:00:00.000Z'' \<rparr>
       (Error ''disk full'' (Some ''Error: disk full at write''))
       \<lparr> url = ''/api/users'', originalUrl = ''/api/users'' \<rparr>) = Send
     \<lparr> status = 500,
       body =
         [(''success'', JBool False),
          (''message'', JStr ''disk full''),
          (''statusCode'', JNum 500),
          (''timestamp'', JStr ''2026-11-02T10:00:00.000Z''),
          (''path'', JStr ''/api/users'')] \<rparr> \<and>
   map_of
     [(''success'', JBool False),
      (''message'', JStr ''disk full''),
      (''statusCode'', JNum 500),
      (''timestamp'', JStr ''2026-11-02T10:00:00.000Z''),
      (''path'', JStr ''/api/users'')] ''stack'' = None"
proof -
  let ?e = "Error ''disk full'' (Some ''Error: disk full at write'')"
  let ?q = "\<lparr> url = ''/api/users'', originalUrl = ''/api/users'' \<rparr>"
  let ?dev = "\<lparr> NODE_ENV = Some ''development'', now = ''2026-11-02T10:00:00.000Z'' \<rparr>"
  let ?prod = "\<lparr> NODE_ENV = Some ''production'', now = ''2026-11-02T10:00:00.000Z'' \<rparr>"
  have plain: "\<not> instanceof_AppError ?e"
    by (simp add: ctor_defs instanceof_AppError_def)
  have dev: "result (errorHandlerMiddleware ?dev ?e ?q) = Send
     \<lparr> status = 500,
       body =
         [(''success'', JBool False),
          (''message'', JStr ''disk full''),
          (''statusCode'', JNum 500),
          (''timestamp'', JStr ''2026-11-02T10:00:00.000Z''),
          (''path'', JStr ''/api/users''),
          (''stack'', JStr ''Error: disk full at write'')] \<rparr>"
    by (simp add: ctor_defs mw_defs)
  have prod: "result (errorHandlerMiddleware ?prod ?e ?q) = Send
     \<lparr> status = 500,
       body =
         [(''success'', JBool False),
          (''message'', JStr ''disk full''),
          (''statusCode'', JNum 500),
          (''timestamp'', JStr ''2026-11-02T10:00:00.000Z''),
          (''path'', JStr ''/api/users'')] \<rparr>"
    by (simp add: ctor_defs mw_defs)
  from stack_field_by_mode [OF plain dev] stack_field_by_mode [OF plain prod] plain dev prod
  show ?thesis by (simp add: ctor_defs)
qed

text \<open>
  C7 as stated (a non-empty trace for every such failure in development mode) fails for
  a failure without a stack: the field is there and undefined.
\<close>

theorem stack_undefined_counterexample:
  "result (errorHandlerMiddleware
       \<lparr> NODE_ENV = Some ''development'', now = ''2026-11-02T10:00:00.000Z'' \<rparr>
       (Error ''disk full'' None)
       \<lparr> url = ''/api/users'', originalUrl = ''/api/users'' \<rparr>) = Send
     \<lparr> status = 500,
       body =
         [(''success'', JBool False),
          (''message'', JStr ''disk full''),
          (''statusCode'', JNum 500),
          (''timestamp'', JStr ''2026-11-02T10:00:00.000Z''),
          (''path'', JStr ''/api/users''),
          (''stack'', JUndefined)] \<rparr>"
  by (simp add: ctor_defs mw_defs)

text \<open>
  C8, as the code has it. A failure outside the hierarchy that the recognition steps
  pass over (it is named neither \<^verbatim>\<open>ValidationError\<close> nor \<^verbatim>\<open>CastError\<close>, and its code is
  not 11000) is answered with its own \<open>statusCode\<close> where it has one that
  \<^verbatim>\<open>res.status\<close> accepts (100 to 999), and with 500 where it has none or zero; the
  message is the failure's own, or the fallback where that is empty; the path is
  \<^verbatim>\<open>req.url\<close> as it is.
\<close>

theorem unrecognized_failure_rendered:
  assumes "\<not> instanceof_AppError err"
    and "name err \<noteq> ''ValidationError''"
    and "name err \<noteq> ''CastError''"
    and "code err \<noteq> Some 11000"
    and "statusCode err = None \<or> statusCode err = Some 0 \<or>
         (\<exists>n. statusCode err = Some n \<and> 100 \<le> n \<and> n \<le> 999)"
  shows "result (errorHandlerMiddleware rt err req) = Send
    \<lparr> status = (case statusCode err of None \<Rightarrow> 500 | Some n \<Rightarrow> if n = 0 then 500 else n),
      body =
        [(''success'', JBool False),
         (''message'', JStr (if message err = [] then ''Something went wrong, try again later''
                             else message err)),
         (''statusCode'', JNum (case statusCode err of None \<Rightarrow> 500
                                  | Some n \<Rightarrow> if n = 0 then 500 else n)),
         (''timestamp'', JStr (now rt)),
         (''path'', JStr (url req))]
        @ (if NODE_ENV rt = Some ''development''
           then [(''stack'', case stack err of None \<Rightarrow> JUndefined | Some s \<Rightarrow> JStr s)]
           else []) \<rparr>"
  using assms
  by (auto simp add: errorHandlerMiddleware_def res_status_json_def Let_def split: option.splits)

text \<open>
  The scenario of the specification: a runtime failure \<^verbatim>\<open>disk full\<close> in production
  mode.
\<close>

theorem unrecognized_failure_rendered_witness:
  "\<not> instanceof_AppError (Error ''disk full'' (Some ''Error: disk full at write'')) \<and>
   result (errorHandlerMiddleware
       \<lparr> NODE_ENV = Some ''production'', now = ''2026-11-02T10:00:00.000Z'' \<rparr>
       (Error ''disk full'' (Some ''Error: disk full at write''))
       \<lparr> url = ''/api/users'', originalUrl = ''/api/users'' \<rparr>) = Send
     \<lparr> status = 500,
       body =
         [(''success'', JBool False),
          (''message'', JStr ''disk full''),
          (''statusCode'', JNum 500),
          (''timestamp'', JStr ''2026-11-02T10:00:00.000Z''),
          (''path'', JStr ''/api/users'')] \<rparr>"
  using unrecognized_failure_rendered
    [where err = "Error ''disk full'' (Some ''Error: disk full at write'')"
       and rt = "\<lparr> NODE_ENV = Some ''production'', now = ''2026-11-02T10:00:00.000Z'' \<rparr>"
       and req = "\<lparr> url = ''/api/users'', originalUrl = ''/api/users'' \<rparr>"]
  by (simp add: ctor_defs instanceof_AppError_def)

text \<open>
  C8 as stated (status 500 for every such failure) fails for a failure that brings a
  \<open>statusCode\<close> of its own, as the errors of the JSON body parser do.
\<close>

theorem own_status_counterexample:
  "result (errorHandlerMiddleware
       \<lparr> NODE_ENV = Some ''production'', now = ''2026-11-02T10:00:00.000Z'' \<rparr>
       ((Error ''Unexpected end of JSON input'' (Some ''SyntaxError: Unexpected end of JSON input''))
         \<lparr> name := ''SyntaxError'',
           statusCode := Some 400 \<rparr>)
       \<lparr> url = ''/api/users'', originalUrl = ''/api/users'' \<rparr>) = Send
     \<lparr> status = 400,
       body =
         [(''success'', JBool False),
          (''message'', JStr ''Unexpected end of JSON input''),
          (''statusCode'', JNum 400),
          (''timestamp'', JStr ''2026-11-02T10:00:00.000Z''),
          (''path'', JStr ''/api/users'')] \<rparr>"
  by (simp add: ctor_defs mw_defs)

text \<open>
  Where the first step does not throw, the check of the code overwrites what the checks
  of the name have set: a failure outside the hierarchy with code 11000 that is named
  \<^verbatim>\<open>CastError\<close>, or named \<^verbatim>\<open>ValidationError\<close> with its \<open>errors\<close>, is answered with
  the uniqueness classification; without the code the same failure gets the
  classification of its name.
\<close>

lemma uniqueness_overrides_name_shapes:
  assumes "\<not> instanceof_AppError err"
    and "code err = Some 11000"
    and "name err = ''CastError'' \<or> (name err = ''ValidationError'' \<and> errors err = Some es)"
  shows "result (errorHandlerMiddleware rt err req) = Send
    \<lparr> status = 400,
      body =
        [(''success'', JBool False),
         (''message'', JStr (join '','' (map fst (case keyValue err of None \<Rightarrow> [] | Some kv \<Rightarrow> kv))
                             @ '' field has to be unique'')),
         (''statusCode'', JNum 400),
         (''timestamp'', JStr (now rt)),
         (''path'', JStr (url req))]
        @ (if NODE_ENV rt = Some ''development''
           then [(''stack'', case stack err of None \<Rightarrow> JUndefined | Some s \<Rightarrow> JStr s)]
           else []) \<rparr> \<and>
   result (errorHandlerMiddleware rt (err \<lparr> code := None \<rparr>) req) = Send
    \<lparr> status = (if name err = ''CastError'' then 400 else 500),
      body =
        [(''success'', JBool False),
         (''message'', JStr (if name err = ''CastError''
                             then ''Resource not found. Invalid: '' @ template (path err)
                             else array_join (map item_message (map snd es)) '','')),
         (''statusCode'', JNum (if name err = ''CastError'' then 400 else 500)),
         (''timestamp'', JStr (now rt)),
         (''path'', JStr (url req))]
        @ (if NODE_ENV rt = Some ''development''
           then [(''stack'', case stack err of None \<Rightarrow> JUndefined | Some s \<Rightarrow> JStr s)]
           else []) \<rparr>"
  using assms by (auto simp add: mw_defs Let_def split: option.splits)

lemma uniqueness_overrides_cast:
  "\<not> instanceof_AppError
       ((Error ''Cast to ObjectId failed'' (Some ''CastError: Cast to ObjectId failed''))
         \<lparr> name := ''CastError'',
           path := Some ''_id'',
           code := Some 11000,
           keyValue := Some [(''email'', JStr ''a@b.c''), (''phone'', JStr ''555'')] \<rparr>) \<and>
   result (errorHandlerMiddleware
       \<lparr> NODE_ENV = Some ''production'', now = ''2026-11-02T10:00:00.000Z'' \<rparr>
       ((Error ''Cast to ObjectId failed'' (Some ''CastError: Cast to ObjectId failed''))
         \<lparr> name := ''CastError'',
           path := Some ''_id'',
           code := Some 11000,
           keyValue := Some [(''email'', JStr ''a@b.c''), (''phone'', JStr ''555'')] \<rparr>)
       \<lparr> url = ''/api/users'', originalUrl = ''/api/users'' \<rparr>) = Send
     \<lparr> status = 400,
       body =
         [(''success'', JBool False),
          (''message'', JStr ''email,phone field has to be unique''),
          (''statusCode'', JNum 400),
          (''timestamp'', JStr ''2026-11-02T10:00:00.000Z''),
          (''path'', JStr ''/api/users'')] \<rparr>"
  using uniqueness_overrides_name_shapes
    [where err = "(Error ''Cast to ObjectId failed'' (Some ''CastError: Cast to ObjectId failed''))
         \<lparr> name := ''CastError'',
           path := Some ''_id'',
           code := Some 11000,
           keyValue := Some [(''email'', JStr ''a@b.c''), (''phone'', JStr ''555'')] \<rparr>"
       and rt = "\<lparr> NODE_ENV = Some ''production'', now = ''2026-11-02T10:00:00.000Z'' \<rparr>"
       and req = "\<lparr> url = ''/api/users'', originalUrl = ''/api/users'' \<rparr>"]
  by (simp add: ctor_defs instanceof_AppError_def)

text \<open>
  C10. A failure named \<^verbatim>\<open>ValidationError\<close> that also carries code 11000 is to end with
  the uniqueness classification. The code at such a failure that has no \<open>errors\<close>
  object: the first step throws on \<^verbatim>\<open>Object.values(undefined)\<close>, the check of the
  code is never reached and nothing is sent.
\<close>

theorem name_shape_with_code_throws:
  "result (errorHandlerMiddleware
       \<lparr> NODE_ENV = Some ''development'', now = ''2026-11-02T10:00:00.000Z'' \<rparr>
       ((Error ''invalid'' None)
         \<lparr> name := ''ValidationError'',
           code := Some 11000 \<rparr>)
       \<lparr> url = ''/api/users'', originalUrl = ''/api/users'' \<rparr>) = Throw TypeError"
  by (simp add: ctor_defs mw_defs)

end
